theory Spec2Isabelle
  imports Main
begin

section \<open>Errors\<close>

text \<open>
  Every exception the two modules can let escape is a value of \<open>error\<close>; a call that
  may raise returns \<open>error + 'a\<close> with \<open>Inl\<close> for the exception.
  \<^item> \<open>ValidationError fs\<close>: raised by \<open>Settings()\<close> when the required fields \<open>fs\<close>
    have no value in any source (the spec calls it ConfigurationError);
  \<^item> \<open>UserError msg\<close>: raised by a constructor of the agent library;
  \<^item> \<open>ProviderError f\<close>: raised by a synchronous run against the model endpoint.
\<close>

datatype provider_failure = Unreachable | TimedOut | MalformedResponse

datatype error =
    ValidationError "string list"
  | UserError string
  | ProviderError provider_failure

section \<open>app/config/config.py\<close>

subsection \<open>The settings sources\<close>

text \<open>
  \<open>os.environ\<close> and the assignments of a \<open>.env\<close> file are lists of (name, value) pairs
  in iteration order. The \<open>.env\<close> file is \<open>None\<close> when the working directory has no
  such file; otherwise it is given by the assignments its parser yields.
\<close>

type_synonym environ = "(string \<times> string) list"

text \<open>\<open>str.lower()\<close> on the ASCII letters, which is what variable names are made of.\<close>

definition lower_char :: "char \<Rightarrow> char" where
  "lower_char c =
     (let n = (of_char c :: nat) in if 65 \<le> n \<and> n \<le> 90 then char_of (n + 32) else c)"

definition lower :: "string \<Rightarrow> string" where
  "lower s = map lower_char s"

text \<open>
  \<open>case_sensitive=False\<close>: a source is read through a dictionary whose keys are the
  lower-cased variable names. The dictionary is built entry by entry, so of two names
  that differ only in case the later one decides.
\<close>

definition parse_env_vars :: "environ \<Rightarrow> (string \<rightharpoonup> string)" where
  "parse_env_vars vars = map_of (rev (map (\<lambda>(k, v). (lower k, v)) vars))"

text \<open>The value a source holds for a variable, its name matched without regard to case.\<close>

definition source_get :: "environ \<Rightarrow> string \<Rightarrow> string option" where
  "source_get vars name = parse_env_vars vars (lower name)"

subsection \<open>Settings\<close>

text \<open>
  The two fields of class \<open>Settings\<close>. \<open>settings_id\<close> is the identity of the
  instance: two references are to the same object exactly when the identities agree.
\<close>

record Settings =
  OLLAMA_BASE_URL :: string
  MODEL_NAME :: string
  settings_id :: nat

subsection \<open>The interpreter state\<close>

text \<open>
  What the two modules read and write outside their arguments: the environment
  variables, the \<open>.env\<close> file, the memo table of \<open>@lru_cache\<close> on \<open>get_settings\<close>
  (one entry at most, the function has no argument) and the identity the next
  constructed object receives.
\<close>

record process =
  os_environ :: environ
  dotenv_file :: "environ option"
  lru_cache :: "Settings option"
  next_id :: nat

text \<open>A process that has just started with the given environment and \<open>.env\<close> file.\<close>

definition fresh_process :: "environ \<Rightarrow> environ option \<Rightarrow> process" where
  "fresh_process env dotenv =
     \<lparr>os_environ = env, dotenv_file = dotenv, lru_cache = None, next_id = 0\<rparr>"

subsection \<open>Settings()\<close>

text \<open>
  The sources of \<open>model_config\<close> in their priority: an environment variable first,
  then the \<open>.env\<close> file (\<open>env_file=".env"\<close>), then the default of the field. A key
  that names no field is never looked up (\<open>extra="ignore"\<close>).
\<close>

definition file_get :: "environ option \<Rightarrow> string \<Rightarrow> string option" where
  "file_get dotenv name =
     (case dotenv of
        None \<Rightarrow> None
      | Some assignments \<Rightarrow> source_get assignments name)"

definition field_value :: "process \<Rightarrow> string \<Rightarrow> string option" where
  "field_value p field =
     (case source_get (os_environ p) field of
        Some v \<Rightarrow> Some v
      | None \<Rightarrow> file_get (dotenv_file p) field)"

text \<open>
  \<open>OLLAMA_BASE_URL\<close> has a default, \<open>MODEL_NAME\<close> is required (\<open>Field(...)\<close>). Both
  are of type \<open>str\<close> and every value of a source is a string, so the only validation
  failure is the missing required field.
\<close>

definition Settings_init :: "process \<Rightarrow> (error + Settings) \<times> process" where
  "Settings_init p =
     (case field_value p ''MODEL_NAME'' of
        None \<Rightarrow> (Inl (ValidationError [''MODEL_NAME'']), p)
      | Some name \<Rightarrow>
          (Inr \<lparr>OLLAMA_BASE_URL =
                  (case field_value p ''OLLAMA_BASE_URL'' of
                     None \<Rightarrow> ''http://localhost:11434/v1''
                   | Some url \<Rightarrow> url),
                MODEL_NAME = name,
                settings_id = next_id p\<rparr>,
           p\<lparr>next_id := Suc (next_id p)\<rparr>))"

subsection \<open>get_settings\<close>

text \<open>
  \<open>@lru_cache\<close> on a function without arguments: a stored result is returned as it
  is; otherwise the body runs, and its result is stored when it returns. A call that
  raises stores nothing.
\<close>

definition get_settings :: "process \<Rightarrow> (error + Settings) \<times> process" where
  "get_settings p =
     (case lru_cache p of
        Some cached \<Rightarrow> (Inr cached, p)
      | None \<Rightarrow>
          (case Settings_init p of
             (Inl e, p') \<Rightarrow> (Inl e, p')
           | (Inr s, p') \<Rightarrow> (Inr s, p'\<lparr>lru_cache := Some s\<rparr>)))"

text \<open>
  A run of calls to \<open>get_settings()\<close> in one process, the environment variables and
  the \<open>.env\<close> file replaced before each call by the next pair of the list.
\<close>

fun get_settings_calls ::
  "(environ \<times> environ option) list \<Rightarrow> process \<Rightarrow> (error + Settings) list \<times> process" where
  "get_settings_calls [] p = ([], p)"
| "get_settings_calls ((env, dotenv) # rest) p =
     (case get_settings (p\<lparr>os_environ := env, dotenv_file := dotenv\<rparr>) of
        (r, p') \<Rightarrow>
          (case get_settings_calls rest p' of
             (rs, p'') \<Rightarrow> (r # rs, p'')))"

section \<open>app/core/agent.py\<close>

subsection \<open>The objects of the agent library\<close>

text \<open>
  \<open>OllamaProvider\<close>, \<open>OpenAIChatModel\<close>, \<open>Agent\<close> and \<open>AgentRunResult\<close> are classes
  of the library the module imports. A provider is known by the URL its client is
  bound to, which need not be the string the constructor was given. A model and an
  agent are the records of the arguments they were constructed from, and carry their
  identity. An \<open>Agent\<close> keeps its system prompts as a sequence, empty when none was
  given.
\<close>

record OllamaProvider =
  base_url :: string

record OpenAIChatModel =
  chat_model_name :: string
  provider :: OllamaProvider
  model_id :: nat

record Agent =
  agent_model :: OpenAIChatModel
  system_prompts :: "string list"
  agent_id :: nat

record AgentRunResult =
  run_output :: string

text \<open>
  What the constructors of the library do is the library's matter, and a parameter
  here. \<open>provider_bind\<close> is \<open>OllamaProvider(base_url=url)\<close>: from the argument and the
  environment variables of the moment it gives the exception the call raises, or the
  URL the client of the new provider is bound to. \<open>model_fault\<close> gives the exception
  \<open>OpenAIChatModel(name, provider=prov)\<close> raises, if any.
\<close>

record library =
  provider_bind :: "string \<Rightarrow> environ \<Rightarrow> error + string"
  model_fault :: "string \<Rightarrow> OllamaProvider \<Rightarrow> error option"

definition OllamaProvider_init ::
  "library \<Rightarrow> string \<Rightarrow> process \<Rightarrow> error + OllamaProvider" where
  "OllamaProvider_init lib url p =
     (case provider_bind lib url (os_environ p) of
        Inl e \<Rightarrow> Inl e
      | Inr bound \<Rightarrow> Inr \<lparr>base_url = bound\<rparr>)"

definition OpenAIChatModel_init ::
  "library \<Rightarrow> string \<Rightarrow> OllamaProvider \<Rightarrow> process \<Rightarrow> (error + OpenAIChatModel) \<times> process" where
  "OpenAIChatModel_init lib name prov p =
     (case model_fault lib name prov of
        Some e \<Rightarrow> (Inl e, p)
      | None \<Rightarrow>
          (Inr \<lparr>chat_model_name = name, provider = prov, model_id = next_id p\<rparr>,
           p\<lparr>next_id := Suc (next_id p)\<rparr>))"

text \<open>
  \<open>Agent(model=m)\<close> is \<open>Agent_init m None\<close>, \<open>Agent(model=m, system_prompt=s)\<close> is
  \<open>Agent_init m (Some s)\<close>. Given a model instance the constructor only records its
  arguments.
\<close>

definition Agent_init :: "OpenAIChatModel \<Rightarrow> string option \<Rightarrow> process \<Rightarrow> Agent \<times> process" where
  "Agent_init m system_prompt p =
     (\<lparr>agent_model = m,
       system_prompts = (case system_prompt of None \<Rightarrow> [] | Some s \<Rightarrow> [s]),
       agent_id = next_id p\<rparr>,
      p\<lparr>next_id := Suc (next_id p)\<rparr>)"

subsection \<open>The module global\<close>

text \<open>\<open>settings = get_settings()\<close>, run once, when the module is imported.\<close>

definition agent_module_import :: "process \<Rightarrow> (error + Settings) \<times> process" where
  "agent_module_import p = get_settings p"

subsection \<open>AgentFactory\<close>

record AgentFactory =
  model_name :: string
  ollama_base_url :: string
  model :: OpenAIChatModel

text \<open>
  \<open>_model_init\<close> reads the two attributes \<open>__init__\<close> has set before it; they are its
  arguments here. The provider is an argument of the model's constructor, so it is
  constructed first.
\<close>

definition model_init ::
  "library \<Rightarrow> string \<Rightarrow> string \<Rightarrow> process \<Rightarrow> (error + OpenAIChatModel) \<times> process" where
  "model_init lib self_model_name self_ollama_base_url p =
     (case OllamaProvider_init lib self_ollama_base_url p of
        Inl e \<Rightarrow> (Inl e, p)
      | Inr prov \<Rightarrow> OpenAIChatModel_init lib self_model_name prov p)"

text \<open>\<open>__init__\<close>; \<open>settings\<close> is the module global.\<close>

definition AgentFactory_init ::
  "library \<Rightarrow> Settings \<Rightarrow> process \<Rightarrow> (error + AgentFactory) \<times> process" where
  "AgentFactory_init lib settings p =
     (let self_model_name = MODEL_NAME settings;
          self_ollama_base_url = OLLAMA_BASE_URL settings
      in case model_init lib self_model_name self_ollama_base_url p of
           (Inl e, p') \<Rightarrow> (Inl e, p')
         | (Inr m, p') \<Rightarrow>
             (Inr \<lparr>model_name = self_model_name,
                   ollama_base_url = self_ollama_base_url,
                   model = m\<rparr>,
              p'))"

text \<open>The truth value of an \<open>Optional[str]\<close>: \<open>None\<close> and the empty string are false.\<close>

fun truthy :: "string option \<Rightarrow> bool" where
  "truthy None = False"
| "truthy (Some s) = (s \<noteq> [])"

definition create_agent :: "AgentFactory \<Rightarrow> string option \<Rightarrow> process \<Rightarrow> Agent \<times> process" where
  "create_agent self system_prompt p =
     (if truthy system_prompt
      then Agent_init (model self) system_prompt p
      else Agent_init (model self) None p)"

text \<open>
  \<open>_identify_model_provider\<close>: the body is \<open>pass\<close>. The result is Python's \<open>None\<close>,
  returned with the factory and the process as they were.
\<close>

definition identify_model_provider ::
  "AgentFactory \<Rightarrow> string \<Rightarrow> process \<Rightarrow> unit \<times> AgentFactory \<times> process" where
  "identify_model_provider self name p = ((), self, p)"

text \<open>
  \<open>agent.run_sync\<close> talks to the model endpoint: it is a parameter, a function of the
  agent, the message and the state \<open>'n\<close> of the endpoint.
\<close>

type_synonym 'n run_sync = "Agent \<Rightarrow> string \<Rightarrow> 'n \<Rightarrow> (error + AgentRunResult) \<times> 'n"

definition test_agent ::
  "'n run_sync \<Rightarrow> AgentFactory \<Rightarrow> string \<Rightarrow> string option \<Rightarrow> process \<Rightarrow> 'n \<Rightarrow>
     (error + AgentRunResult) \<times> process \<times> 'n" where
  "test_agent run_sync self message system_prompt p n =
     (case create_agent self system_prompt p of
        (agent, p') \<Rightarrow>
          (case run_sync agent message n of
             (r, n') \<Rightarrow> (r, p', n')))"

text \<open>
  An endpoint for experiments: it answers the calls with the outcomes of a script, one
  per call, and cannot be reached once the script is used up.
\<close>

fun scripted_run_sync :: "((error + AgentRunResult) list) run_sync" where
  "scripted_run_sync agent message [] = (Inl (ProviderError Unreachable), [])"
| "scripted_run_sync agent message (r # rs) = (r, rs)"

text \<open>A run of calls to \<open>create_agent\<close> on one factory, one per system prompt.\<close>

fun create_agents :: "AgentFactory \<Rightarrow> string option list \<Rightarrow> process \<Rightarrow> Agent list \<times> process" where
  "create_agents self [] p = ([], p)"
| "create_agents self (sp # sps) p =
     (case create_agent self sp p of
        (a, p') \<Rightarrow>
          (case create_agents self sps p' of
             (agents, p'') \<Rightarrow> (a # agents, p'')))"

text \<open>
  A run of constructions \<open>AgentFactory()\<close> in a process that has imported the module,
  the environment variables and the \<open>.env\<close> file replaced before each one.
\<close>

fun AgentFactory_inits ::
  "library \<Rightarrow> Settings \<Rightarrow> (environ \<times> environ option) list \<Rightarrow> process \<Rightarrow>
     (error + AgentFactory) list \<times> process" where
  "AgentFactory_inits lib settings [] p = ([], p)"
| "AgentFactory_inits lib settings ((env, dotenv) # rest) p =
     (case AgentFactory_init lib settings (p\<lparr>os_environ := env, dotenv_file := dotenv\<rparr>) of
        (r, p') \<Rightarrow>
          (case AgentFactory_inits lib settings rest p' of
             (rs, p'') \<Rightarrow> (r # rs, p'')))"

text \<open>
  The script: the module body, then \<open>agent = AgentFactory()\<close> of the main block. The
  prompt loop that follows is not part of this development.
\<close>

definition main_startup :: "library \<Rightarrow> process \<Rightarrow> (error + AgentFactory) \<times> process" where
  "main_startup lib p =
     (case agent_module_import p of
        (Inl e, p') \<Rightarrow> (Inl e, p')
      | (Inr settings, p') \<Rightarrow> AgentFactory_init lib settings p')"

subsection \<open>Sample values\<close>

text \<open>
  A library for the examples. Its provider takes the URL of the argument or, when the
  argument is empty, the one of the environment variable \<open>OLLAMA_BASE_URL\<close>; it raises
  when both are missing or empty, and binds the client to the URL closed by a slash.
  Its model constructor never raises.
\<close>

definition with_trailing_slash :: "string \<Rightarrow> string" where
  "with_trailing_slash url = (if url \<noteq> [] \<and> last url = CHR ''/'' then url else url @ ''/'')"

definition ollama_bind :: "string \<Rightarrow> environ \<Rightarrow> error + string" where
  "ollama_bind url env =
     (case (if url \<noteq> [] then Some url else map_of env ''OLLAMA_BASE_URL'') of
        None \<Rightarrow> Inl (UserError ''Set the OLLAMA_BASE_URL environment variable'')
      | Some chosen \<Rightarrow>
          (if chosen = [] then Inl (UserError ''Set the OLLAMA_BASE_URL environment variable'')
           else Inr (with_trailing_slash chosen)))"

definition ollama_library :: library where
  "ollama_library = \<lparr>provider_bind = ollama_bind, model_fault = (\<lambda>name prov. None)\<rparr>"

text \<open>
  The settings, the process and the factory of a run in the environment
  \<open>MODEL_NAME=llama3\<close> without a \<open>.env\<close> file: after the import, and after one
  \<open>AgentFactory()\<close>.
\<close>

definition llama3_settings :: Settings where
  "llama3_settings =
     \<lparr>OLLAMA_BASE_URL = ''http://localhost:11434/v1'', MODEL_NAME = ''llama3'',
      settings_id = 0\<rparr>"

definition imported_process :: process where
  "imported_process =
     \<lparr>os_environ = [(''MODEL_NAME'', ''llama3'')], dotenv_file = None,
      lru_cache = Some llama3_settings, next_id = 1\<rparr>"

definition llama3_factory :: AgentFactory where
  "llama3_factory =
     \<lparr>model_name = ''llama3'', ollama_base_url = ''http://localhost:11434/v1'',
      model = \<lparr>chat_model_name = ''llama3'',
               provider = \<lparr>base_url = ''http://localhost:11434/v1/''\<rparr>,
               model_id = 1\<rparr>\<rparr>"

text \<open>
  The settings of a process imported with \<open>OLLAMA_BASE_URL\<close> set to the empty string,
  and that process once the variable has been removed again.
\<close>

definition empty_url_settings :: Settings where
  "empty_url_settings =
     \<lparr>OLLAMA_BASE_URL = [], MODEL_NAME = ''llama3'', settings_id = 0\<rparr>"

definition empty_url_process :: process where
  "empty_url_process =
     \<lparr>os_environ = [(''MODEL_NAME'', ''llama3'')], dotenv_file = None,
      lru_cache = Some empty_url_settings, next_id = 1\<rparr>"

section \<open>Reading the sources\<close>

lemma lower_MODEL_NAME: "lower ''MODEL_NAME'' = ''model_name''"
  by code_simp

lemma lower_OLLAMA_BASE_URL: "lower ''OLLAMA_BASE_URL'' = ''ollama_base_url''"
  by code_simp

text \<open>
  Where no two names of a source differ only in case, a variable of the source is read
  with the value it has there, under whatever capitalisation it is asked for.
\<close>

lemma source_get_unique:
  assumes d: "distinct (map (lower \<circ> fst) vars)"
    and m: "(k, v) \<in> set vars"
    and l: "lower k = lower name"
  shows "source_get vars name = Some v"
proof -
  let ?entries = "rev (map (\<lambda>(k, v). (lower k, v)) vars)"
  have "map fst ?entries = rev (map (lower \<circ> fst) vars)"
    by (simp add: rev_map case_prod_unfold comp_def)
  with d have "distinct (map fst ?entries)" by simp
  moreover from m l have "(lower name, v) \<in> set ?entries" by force
  ultimately show ?thesis
    unfolding source_get_def parse_env_vars_def by (rule map_of_is_SomeI)
qed

text \<open>The environment variable decides before the \<open>.env\<close> file is asked.\<close>

lemma field_value_environ:
  "source_get (os_environ p) field = Some v \<Longrightarrow> field_value p field = Some v"
  by (simp add: field_value_def)

lemma field_value_dotenv:
  "source_get (os_environ p) field = None \<Longrightarrow>
     field_value p field = file_get (dotenv_file p) field"
  by (simp add: field_value_def)

section \<open>The memo table\<close>

lemma get_settings_stores:
  "get_settings p = (Inr s, p') \<Longrightarrow> lru_cache p' = Some s"
  by (auto simp: get_settings_def Settings_init_def split: option.splits)

lemma get_settings_hit:
  "lru_cache p = Some s \<Longrightarrow> get_settings p = (Inr s, p)"
  by (simp add: get_settings_def)

text \<open>A call that raises leaves the process as it was, the memo table empty.\<close>

lemma get_settings_raises:
  "get_settings p = (Inl e, p') \<Longrightarrow> p' = p \<and> lru_cache p = None"
  by (auto simp: get_settings_def Settings_init_def split: option.splits)

lemma get_settings_calls_hit:
  "lru_cache p = Some s \<Longrightarrow>
     fst (get_settings_calls ws p) = replicate (length ws) (Inr s)
     \<and> lru_cache (snd (get_settings_calls ws p)) = Some s
     \<and> next_id (snd (get_settings_calls ws p)) = next_id p"
proof (induction ws arbitrary: p)
  case Nil
  then show ?case by simp
next
  case (Cons w ws)
  obtain env dotenv where w: "w = (env, dotenv)" by (cases w)
  let ?q = "p\<lparr>os_environ := env, dotenv_file := dotenv\<rparr>"
  from Cons.prems have c: "lru_cache ?q = Some s" by simp
  then have g: "get_settings ?q = (Inr s, ?q)" by (rule get_settings_hit)
  from Cons.IH [OF c] show ?case
    by (auto simp: w g split: prod.splits)
qed

section \<open>The factory\<close>

lemma AgentFactory_init_Inr:
  "AgentFactory_init lib s p = (Inr f, p') \<Longrightarrow>
     \<exists>bound. provider_bind lib (OLLAMA_BASE_URL s) (os_environ p) = Inr bound
        \<and> model_fault lib (MODEL_NAME s) \<lparr>base_url = bound\<rparr> = None
        \<and> f = \<lparr>model_name = MODEL_NAME s, ollama_base_url = OLLAMA_BASE_URL s,
                model = \<lparr>chat_model_name = MODEL_NAME s,
                         provider = \<lparr>base_url = bound\<rparr>,
                         model_id = next_id p\<rparr>\<rparr>
        \<and> p' = p\<lparr>next_id := Suc (next_id p)\<rparr>"
  by (auto simp: AgentFactory_init_def model_init_def OllamaProvider_init_def
      OpenAIChatModel_init_def Let_def split: option.splits sum.splits prod.splits)

lemma AgentFactory_init_Inl:
  "AgentFactory_init lib s p = (Inl e, p') \<Longrightarrow>
     (provider_bind lib (OLLAMA_BASE_URL s) (os_environ p) = Inl e
      \<or> (\<exists>bound. provider_bind lib (OLLAMA_BASE_URL s) (os_environ p) = Inr bound
            \<and> model_fault lib (MODEL_NAME s) \<lparr>base_url = bound\<rparr> = Some e))
     \<and> p' = p"
  by (auto simp: AgentFactory_init_def model_init_def OllamaProvider_init_def
      OpenAIChatModel_init_def Let_def split: option.splits sum.splits prod.splits)

lemma AgentFactory_init_provider_raises:
  "provider_bind lib (OLLAMA_BASE_URL s) (os_environ p) = Inl e \<Longrightarrow>
     AgentFactory_init lib s p = (Inl e, p)"
  by (simp add: AgentFactory_init_def model_init_def OllamaProvider_init_def Let_def)

lemma AgentFactory_init_model_raises:
  "provider_bind lib (OLLAMA_BASE_URL s) (os_environ p) = Inr bound \<Longrightarrow>
   model_fault lib (MODEL_NAME s) \<lparr>base_url = bound\<rparr> = Some e \<Longrightarrow>
     AgentFactory_init lib s p = (Inl e, p)"
  by (simp add: AgentFactory_init_def model_init_def OllamaProvider_init_def
      OpenAIChatModel_init_def Let_def)

lemma AgentFactory_init_model_name:
  "AgentFactory_init lib s p = (Inr f, p') \<Longrightarrow> chat_model_name (model f) = model_name f"
  by (auto dest: AgentFactory_init_Inr)

lemma AgentFactory_init_lru_cache:
  "lru_cache (snd (AgentFactory_init lib s p)) = lru_cache p"
  by (auto simp: AgentFactory_init_def model_init_def OllamaProvider_init_def
      OpenAIChatModel_init_def Let_def split: option.splits sum.splits prod.splits)

lemma ollama_bind_default:
  "ollama_bind ''http://localhost:11434/v1'' env = Inr ''http://localhost:11434/v1/''"
  by (simp add: ollama_bind_def with_trailing_slash_def)

lemma AgentFactory_init_sample:
  "AgentFactory_init ollama_library llama3_settings imported_process =
     (Inr llama3_factory, imported_process\<lparr>next_id := 2\<rparr>)"
  by (simp add: AgentFactory_init_def model_init_def OllamaProvider_init_def
      OpenAIChatModel_init_def ollama_library_def ollama_bind_default llama3_settings_def
      imported_process_def llama3_factory_def Let_def numeral_2_eq_2)

lemma agent_module_import_sample:
  "agent_module_import (fresh_process [(''MODEL_NAME'', ''llama3'')] None) =
     (Inr llama3_settings, imported_process)"
  by (simp add: agent_module_import_def get_settings_def Settings_init_def field_value_def
      fresh_process_def source_get_def parse_env_vars_def lower_def lower_char_def
      file_get_def llama3_settings_def imported_process_def)

lemma create_agent_model: "agent_model (fst (create_agent f sp p)) = model f"
  by (simp add: create_agent_def Agent_init_def)

lemma create_agents_model:
  "a \<in> set (fst (create_agents f sps p)) \<Longrightarrow> agent_model a = model f"
proof (induction sps arbitrary: p)
  case Nil
  then show ?case by simp
next
  case (Cons sp sps)
  obtain a0 p0 where c: "create_agent f sp p = (a0, p0)"
    by (cases "create_agent f sp p")
  obtain agents p1 where cs: "create_agents f sps p0 = (agents, p1)"
    by (cases "create_agents f sps p0")
  from Cons.prems c cs have "a = a0 \<or> a \<in> set (fst (create_agents f sps p0))" by auto
  then show ?case
  proof
    assume "a = a0"
    with create_agent_model [of f sp p] c show ?thesis by simp
  next
    assume "a \<in> set (fst (create_agents f sps p0))"
    then show ?thesis by (rule Cons.IH)
  qed
qed

lemma AgentFactory_inits_settings:
  "(\<forall>r \<in> set (fst (AgentFactory_inits lib s ws p)). \<forall>f. r = Inr f \<longrightarrow>
      model_name f = MODEL_NAME s \<and> ollama_base_url f = OLLAMA_BASE_URL s)
   \<and> lru_cache (snd (AgentFactory_inits lib s ws p)) = lru_cache p"
proof (induction ws arbitrary: p)
  case Nil
  then show ?case by simp
next
  case (Cons w ws)
  obtain env dotenv where w: "w = (env, dotenv)" by (cases w)
  let ?q = "p\<lparr>os_environ := env, dotenv_file := dotenv\<rparr>"
  obtain r q' where i: "AgentFactory_init lib s ?q = (r, q')"
    by (cases "AgentFactory_init lib s ?q")
  have r: "\<forall>f. r = Inr f \<longrightarrow>
      model_name f = MODEL_NAME s \<and> ollama_base_url f = OLLAMA_BASE_URL s"
    using AgentFactory_init_Inr [of lib s ?q _ q'] i by auto
  have c: "lru_cache q' = lru_cache p"
    using AgentFactory_init_lru_cache [of lib s ?q] i by simp
  from Cons.IH [of q'] r c show ?case
    by (auto simp: w i split: prod.splits)
qed

section \<open>Settings resolution\<close>

text \<open>
  Claim C1, as stated, fails where it says that \<open>get_settings()\<close> raises whenever
  \<open>MODEL_NAME\<close> is absent from the environment: with no environment variable at all
  and a \<open>.env\<close> file that assigns \<open>MODEL_NAME=llama3\<close>, the first call of a process
  returns a Settings with that model name.
\<close>

theorem get_settings_dotenv_supplies_MODEL_NAME:
  "source_get [] ''MODEL_NAME'' = None
   \<and> fst (get_settings (fresh_process [] (Some [(''MODEL_NAME'', ''llama3'')]))) =
       Inr \<lparr>OLLAMA_BASE_URL = ''http://localhost:11434/v1'', MODEL_NAME = ''llama3'',
            settings_id = 0\<rparr>"
  by (simp add: get_settings_def Settings_init_def field_value_def fresh_process_def
      source_get_def parse_env_vars_def lower_def lower_char_def file_get_def)

text \<open>
  Claim C1, amended: in the first call of a process, for every environment that holds a
  non-empty \<open>MODEL_NAME\<close> (the name read without regard to case), whatever the
  \<open>.env\<close> file, \<open>get_settings()\<close> returns a Settings whose \<open>MODEL_NAME\<close> is the
  value of the environment; for every environment without \<open>MODEL_NAME\<close> and every
  \<open>.env\<close> file that is missing or does not assign it either, \<open>get_settings()\<close>
  raises the validation error for the missing field.
\<close>

theorem get_settings_MODEL_NAME:
  "(source_get env ''MODEL_NAME'' = Some v \<longrightarrow> v \<noteq> [] \<longrightarrow>
      (\<exists>s. fst (get_settings (fresh_process env dotenv)) = Inr s \<and> MODEL_NAME s = v))
   \<and> (source_get env ''MODEL_NAME'' = None \<longrightarrow> file_get dotenv ''MODEL_NAME'' = None \<longrightarrow>
      fst (get_settings (fresh_process env dotenv)) = Inl (ValidationError [''MODEL_NAME'']))"
  by (simp add: get_settings_def Settings_init_def field_value_def fresh_process_def)

text \<open>
  Claim C1, amended, at \<open>MODEL_NAME=llama3\<close> with a \<open>.env\<close> file that names another
  model, and at the empty environment without a \<open>.env\<close> file.
\<close>

theorem get_settings_MODEL_NAME_witness:
  "(\<exists>s. fst (get_settings (fresh_process [(''MODEL_NAME'', ''llama3'')]
                 (Some [(''MODEL_NAME'', ''mistral'')]))) = Inr s
        \<and> MODEL_NAME s = ''llama3'')
   \<and> fst (get_settings (fresh_process [] None)) = Inl (ValidationError [''MODEL_NAME''])"
proof -
  have present: "source_get [(''MODEL_NAME'', ''llama3'')] ''MODEL_NAME'' = Some ''llama3''"
    by (simp add: source_get_def parse_env_vars_def)
  have absent: "source_get [] ''MODEL_NAME'' = None"
    and no_file: "file_get None ''MODEL_NAME'' = None"
    by (simp_all add: source_get_def parse_env_vars_def file_get_def)
  from get_settings_MODEL_NAME
    [of "[(''MODEL_NAME'', ''llama3'')]" "''llama3''" "Some [(''MODEL_NAME'', ''mistral'')]"]
    present
  have "\<exists>s. fst (get_settings (fresh_process [(''MODEL_NAME'', ''llama3'')]
                 (Some [(''MODEL_NAME'', ''mistral'')]))) = Inr s
        \<and> MODEL_NAME s = ''llama3''"
    by simp
  moreover from get_settings_MODEL_NAME [of "[]" "''llama3''" None] absent no_file
  have "fst (get_settings (fresh_process [] None)) = Inl (ValidationError [''MODEL_NAME''])"
    by simp
  ultimately show ?thesis by simp
qed

text \<open>
  Claim C5, as stated, fails: with \<open>MODEL_NAME=llama3\<close> in the environment,
  \<open>OLLAMA_BASE_URL\<close> not in the environment and a \<open>.env\<close> file that assigns
  \<open>OLLAMA_BASE_URL\<close>, the base URL of the Settings is the one of the file, not the
  default.
\<close>

theorem get_settings_dotenv_supplies_OLLAMA_BASE_URL:
  "source_get [(''MODEL_NAME'', ''llama3'')] ''MODEL_NAME'' = Some ''llama3''
   \<and> source_get [(''MODEL_NAME'', ''llama3'')] ''OLLAMA_BASE_URL'' = None
   \<and> fst (get_settings (fresh_process [(''MODEL_NAME'', ''llama3'')]
              (Some [(''OLLAMA_BASE_URL'', ''http://10.0.0.5:11434/v1'')]))) =
       Inr \<lparr>OLLAMA_BASE_URL = ''http://10.0.0.5:11434/v1'', MODEL_NAME = ''llama3'',
            settings_id = 0\<rparr>
   \<and> ''http://10.0.0.5:11434/v1'' \<noteq> ''http://localhost:11434/v1''"
  by (simp add: get_settings_def Settings_init_def field_value_def fresh_process_def
      source_get_def parse_env_vars_def lower_def lower_char_def file_get_def)

text \<open>
  Claim C5, amended: with \<open>MODEL_NAME\<close> set to \<open>llama3\<close> in the environment and
  \<open>OLLAMA_BASE_URL\<close> set neither in the environment nor in a \<open>.env\<close> file, the first
  \<open>get_settings()\<close> of a process returns a Settings whose model name is \<open>llama3\<close> and
  whose base URL is the default \<open>http://localhost:11434/v1\<close>.
\<close>

theorem get_settings_llama3_default_url:
  "source_get env ''MODEL_NAME'' = Some ''llama3'' \<Longrightarrow>
   source_get env ''OLLAMA_BASE_URL'' = None \<Longrightarrow>
   file_get dotenv ''OLLAMA_BASE_URL'' = None \<Longrightarrow>
     \<exists>s. fst (get_settings (fresh_process env dotenv)) = Inr s
        \<and> MODEL_NAME s = ''llama3''
        \<and> OLLAMA_BASE_URL s = ''http://localhost:11434/v1''"
  by (simp add: get_settings_def Settings_init_def field_value_def fresh_process_def)

text \<open>
  Claim C5, amended, at the environment that holds \<open>MODEL_NAME=llama3\<close> alone, without
  a \<open>.env\<close> file.
\<close>

theorem get_settings_llama3_default_url_witness:
  "\<exists>s. fst (get_settings (fresh_process [(''MODEL_NAME'', ''llama3'')] None)) = Inr s
        \<and> MODEL_NAME s = ''llama3''
        \<and> OLLAMA_BASE_URL s = ''http://localhost:11434/v1''"
proof -
  have "source_get [(''MODEL_NAME'', ''llama3'')] ''MODEL_NAME'' = Some ''llama3''"
    and "source_get [(''MODEL_NAME'', ''llama3'')] ''OLLAMA_BASE_URL'' = None"
    and "file_get None ''OLLAMA_BASE_URL'' = None"
    by (simp_all add: source_get_def parse_env_vars_def lower_def lower_char_def file_get_def)
  then show ?thesis by (rule get_settings_llama3_default_url)
qed

text \<open>
  Claim C2: once a call of \<open>get_settings()\<close> has returned a Settings, every later call
  in the process returns that same instance (the same identity, the same fields),
  whatever the environment variables and the \<open>.env\<close> file have become before each
  call; no further Settings is constructed and the memo table keeps the instance.
\<close>

theorem get_settings_memoized:
  "get_settings p0 = (Inr s, p1) \<Longrightarrow>
     fst (get_settings_calls ws p1) = replicate (length ws) (Inr s)
     \<and> lru_cache (snd (get_settings_calls ws p1)) = Some s
     \<and> next_id (snd (get_settings_calls ws p1)) = next_id p1"
  by (rule get_settings_calls_hit) (rule get_settings_stores)

text \<open>
  Claim C2 at a process started with \<open>MODEL_NAME=llama3\<close>: after the first call, a call
  with the environment emptied and a call with \<open>MODEL_NAME=mistral\<close> and a \<open>.env\<close>
  file both return the first instance.
\<close>

theorem get_settings_memoized_witness:
  "get_settings (fresh_process [(''MODEL_NAME'', ''llama3'')] None) =
     (Inr llama3_settings, imported_process)
   \<and> fst (get_settings_calls
            [([], None),
             ([(''MODEL_NAME'', ''mistral'')],
              Some [(''OLLAMA_BASE_URL'', ''http://10.0.0.5:11434/v1'')])]
            imported_process) =
       [Inr llama3_settings, Inr llama3_settings]"
proof -
  have first: "get_settings (fresh_process [(''MODEL_NAME'', ''llama3'')] None) =
      (Inr llama3_settings, imported_process)"
    using agent_module_import_sample by (simp add: agent_module_import_def)
  from get_settings_memoized [OF first,
      of "[([], None),
           ([(''MODEL_NAME'', ''mistral'')],
            Some [(''OLLAMA_BASE_URL'', ''http://10.0.0.5:11434/v1'')])]"]
  have "fst (get_settings_calls
            [([], None),
             ([(''MODEL_NAME'', ''mistral'')],
              Some [(''OLLAMA_BASE_URL'', ''http://10.0.0.5:11434/v1'')])]
            imported_process) =
       replicate (length [(([]::environ), (None::environ option)),
             ([(''MODEL_NAME'', ''mistral'')],
              Some [(''OLLAMA_BASE_URL'', ''http://10.0.0.5:11434/v1'')])]) (Inr llama3_settings)"
    by (rule conjunct1)
  then show ?thesis using first by (simp add: numeral_2_eq_2)
qed

section \<open>Agents of one factory\<close>

text \<open>
  Claim C3: for every factory that \<open>AgentFactory()\<close> has returned and every run of
  \<open>create_agent\<close> calls on it, each agent returned references the model handle of the
  factory (the same identity, the same fields), whose model name is the one of the
  factory; so any two agents of the run have the same pair of model name and base
  URL.
\<close>

theorem create_agents_share_model:
  "AgentFactory_init lib settings p = (Inr f, p') \<Longrightarrow>
     \<forall>a \<in> set (fst (create_agents f sps q)).
        agent_model a = model f
        \<and> chat_model_name (agent_model a) = model_name f
        \<and> (\<forall>b \<in> set (fst (create_agents f sps q)).
              (chat_model_name (agent_model b), base_url (provider (agent_model b))) =
              (chat_model_name (agent_model a), base_url (provider (agent_model a))))"
proof
  fix a
  assume i: "AgentFactory_init lib settings p = (Inr f, p')"
    and a: "a \<in> set (fst (create_agents f sps q))"
  from a have handle: "agent_model a = model f" by (rule create_agents_model)
  from i have name: "chat_model_name (model f) = model_name f"
    by (rule AgentFactory_init_model_name)
  have pairs: "\<forall>b \<in> set (fst (create_agents f sps q)).
      (chat_model_name (agent_model b), base_url (provider (agent_model b))) =
      (chat_model_name (agent_model a), base_url (provider (agent_model a)))"
  proof
    fix b
    assume "b \<in> set (fst (create_agents f sps q))"
    then have "agent_model b = model f" by (rule create_agents_model)
    with handle show "(chat_model_name (agent_model b), base_url (provider (agent_model b))) =
      (chat_model_name (agent_model a), base_url (provider (agent_model a)))" by simp
  qed
  from handle name pairs
  show "agent_model a = model f
        \<and> chat_model_name (agent_model a) = model_name f
        \<and> (\<forall>b \<in> set (fst (create_agents f sps q)).
              (chat_model_name (agent_model b), base_url (provider (agent_model b))) =
              (chat_model_name (agent_model a), base_url (provider (agent_model a))))"
    by simp
qed

text \<open>
  Claim C3 at the factory of the \<open>llama3\<close> process and three calls of \<open>create_agent\<close>:
  without a prompt, with a prompt and with the empty prompt. The three agents hold the
  handle of the factory, bound to the URL the provider has closed by a slash.
\<close>

theorem create_agents_share_model_witness:
  "AgentFactory_init ollama_library llama3_settings imported_process =
     (Inr llama3_factory, imported_process\<lparr>next_id := 2\<rparr>)
   \<and> map agent_model
        (fst (create_agents llama3_factory [None, Some ''Be concise'', Some []]
                (imported_process\<lparr>next_id := 2\<rparr>))) =
       [model llama3_factory, model llama3_factory, model llama3_factory]
   \<and> map (\<lambda>a. (chat_model_name (agent_model a), base_url (provider (agent_model a))))
        (fst (create_agents llama3_factory [None, Some ''Be concise'', Some []]
                (imported_process\<lparr>next_id := 2\<rparr>))) =
       [(''llama3'', ''http://localhost:11434/v1/''),
        (''llama3'', ''http://localhost:11434/v1/''),
        (''llama3'', ''http://localhost:11434/v1/'')]"
  using create_agents_share_model [OF AgentFactory_init_sample,
      of "[None, Some ''Be concise'', Some []]" "imported_process\<lparr>next_id := 2\<rparr>"]
    AgentFactory_init_sample
  by (simp add: create_agent_def Agent_init_def llama3_factory_def)

text \<open>
  Claim C4: \<open>create_agent(None)\<close> returns an agent without a system prompt; for every
  non-empty string \<open>X\<close>, \<open>create_agent(X)\<close> returns an agent whose system prompt is
  \<open>X\<close>; the system prompts of the two agents differ, so the agents can be told apart
  by looking at them.
\<close>

theorem create_agent_system_prompt:
  "system_prompts (fst (create_agent f None p)) = []
   \<and> (X \<noteq> [] \<longrightarrow>
        system_prompts (fst (create_agent f (Some X) p)) = [X]
        \<and> system_prompts (fst (create_agent f (Some X) p))
            \<noteq> system_prompts (fst (create_agent f None p)))"
  by (simp add: create_agent_def Agent_init_def)

text \<open>Claim C4 at the \<open>llama3\<close> factory and the prompt \<open>Be concise\<close>.\<close>

theorem create_agent_system_prompt_witness:
  "''Be concise'' \<noteq> []
   \<and> system_prompts (fst (create_agent llama3_factory None imported_process)) = []
   \<and> system_prompts (fst (create_agent llama3_factory (Some ''Be concise'') imported_process)) =
       [''Be concise'']
   \<and> system_prompts (fst (create_agent llama3_factory (Some ''Be concise'') imported_process))
       \<noteq> system_prompts (fst (create_agent llama3_factory None imported_process))"
  using create_agent_system_prompt [of llama3_factory imported_process "''Be concise''"]
  by simp

text \<open>
  Claim C9: \<open>create_agent("")\<close> returns what \<open>create_agent(None)\<close> returns, an agent
  without a system prompt: the empty string counts as no prompt, not as a prompt that
  is empty.
\<close>

theorem create_agent_empty_prompt:
  "create_agent f (Some []) p = create_agent f None p
   \<and> system_prompts (fst (create_agent f (Some []) p)) = []"
  by (simp add: create_agent_def Agent_init_def)

text \<open>Claim C9 at the \<open>llama3\<close> factory.\<close>

theorem create_agent_empty_prompt_witness:
  "create_agent llama3_factory (Some []) imported_process =
     create_agent llama3_factory None imported_process
   \<and> system_prompts (fst (create_agent llama3_factory (Some []) imported_process)) = []"
  by (rule create_agent_empty_prompt)

text \<open>
  Claim C8: for every model name, \<open>_identify_model_provider\<close> does nothing and returns
  nothing: its result is \<open>None\<close>, the factory and the process are as before.
\<close>

theorem identify_model_provider_noop:
  "identify_model_provider f name p = ((), f, p)"
  by (simp add: identify_model_provider_def)

text \<open>Claim C8 at the \<open>llama3\<close> factory and the model name \<open>gpt-4\<close>.\<close>

theorem identify_model_provider_noop_witness:
  "identify_model_provider llama3_factory ''gpt-4'' imported_process =
     ((), llama3_factory, imported_process)"
  by (rule identify_model_provider_noop)

section \<open>Failures\<close>

text \<open>
  Claim C6: when the synchronous run of the agent fails, \<open>test_agent\<close> fails with the
  same error: the error is the result of \<open>test_agent\<close>, no result takes its place, and
  the endpoint is left in the state the one failed run has left it in, so no second
  run was made.
\<close>

theorem test_agent_propagates:
  "run_sync (fst (create_agent f sp p)) msg n = (Inl e, n') \<Longrightarrow>
     test_agent run_sync f msg sp p n = (Inl e, snd (create_agent f sp p), n')"
  by (auto simp: test_agent_def split: prod.splits)

text \<open>
  Claim C6 at an endpoint that times out on the first call and would answer the
  second: \<open>test_agent\<close> returns the timeout and the answer is still to come.
\<close>

theorem test_agent_propagates_witness:
  "scripted_run_sync (fst (create_agent llama3_factory None imported_process)) ''Hello''
      [Inl (ProviderError TimedOut), Inr \<lparr>run_output = ''Hi''\<rparr>] =
     (Inl (ProviderError TimedOut), [Inr \<lparr>run_output = ''Hi''\<rparr>])
   \<and> test_agent scripted_run_sync llama3_factory ''Hello'' None imported_process
        [Inl (ProviderError TimedOut), Inr \<lparr>run_output = ''Hi''\<rparr>] =
       (Inl (ProviderError TimedOut), imported_process\<lparr>next_id := 2\<rparr>,
        [Inr \<lparr>run_output = ''Hi''\<rparr>])"
proof -
  have run: "scripted_run_sync (fst (create_agent llama3_factory None imported_process))
      ''Hello'' [Inl (ProviderError TimedOut), Inr \<lparr>run_output = ''Hi''\<rparr>] =
     (Inl (ProviderError TimedOut), [Inr \<lparr>run_output = ''Hi''\<rparr>])"
    by simp
  have "snd (create_agent llama3_factory None imported_process) =
      imported_process\<lparr>next_id := 2\<rparr>"
    by (simp add: create_agent_def Agent_init_def imported_process_def numeral_2_eq_2)
  with test_agent_propagates
    [where run_sync = scripted_run_sync and f = llama3_factory and sp = None
       and p = imported_process and msg = "''Hello''"
       and n = "[Inl (ProviderError TimedOut), Inr \<lparr>run_output = ''Hi''\<rparr>]"
       and e = "ProviderError TimedOut" and n' = "[Inr \<lparr>run_output = ''Hi''\<rparr>]"] run
  show ?thesis by simp
qed

text \<open>
  Claim C7: \<open>AgentFactory()\<close> either returns a factory whose model name and base URL
  are those of the settings and whose model handle, made from that name and the
  provider bound for that URL, is the one object the construction has made, or it
  raises the error the binding of the client has raised, the process as before and no
  factory returned. It raises whenever the provider or the model constructor raises;
  and where loading the settings raises, the script raises that error and no factory
  is constructed.
\<close>

theorem AgentFactory_init_atomic:
  "(AgentFactory_init lib s p = (r, p') \<longrightarrow>
      (case r of
         Inr f \<Rightarrow>
           (\<exists>bound. provider_bind lib (OLLAMA_BASE_URL s) (os_environ p) = Inr bound
              \<and> model_fault lib (MODEL_NAME s) \<lparr>base_url = bound\<rparr> = None
              \<and> f = \<lparr>model_name = MODEL_NAME s, ollama_base_url = OLLAMA_BASE_URL s,
                      model = \<lparr>chat_model_name = MODEL_NAME s,
                               provider = \<lparr>base_url = bound\<rparr>,
                               model_id = next_id p\<rparr>\<rparr>)
           \<and> p' = p\<lparr>next_id := Suc (next_id p)\<rparr>
       | Inl e \<Rightarrow>
           (provider_bind lib (OLLAMA_BASE_URL s) (os_environ p) = Inl e
            \<or> (\<exists>bound. provider_bind lib (OLLAMA_BASE_URL s) (os_environ p) = Inr bound
                  \<and> model_fault lib (MODEL_NAME s) \<lparr>base_url = bound\<rparr> = Some e))
           \<and> p' = p))
   \<and> (provider_bind lib (OLLAMA_BASE_URL s) (os_environ p) = Inl perr \<longrightarrow>
        AgentFactory_init lib s p = (Inl perr, p))
   \<and> (provider_bind lib (OLLAMA_BASE_URL s) (os_environ p) = Inr url \<longrightarrow>
        model_fault lib (MODEL_NAME s) \<lparr>base_url = url\<rparr> = Some merr \<longrightarrow>
        AgentFactory_init lib s p = (Inl merr, p))
   \<and> (agent_module_import p = (Inl err, q) \<longrightarrow> main_startup lib p = (Inl err, q))"
proof (intro conjI impI)
  assume i: "AgentFactory_init lib s p = (r, p')"
  show "case r of
         Inr f \<Rightarrow>
           (\<exists>bound. provider_bind lib (OLLAMA_BASE_URL s) (os_environ p) = Inr bound
              \<and> model_fault lib (MODEL_NAME s) \<lparr>base_url = bound\<rparr> = None
              \<and> f = \<lparr>model_name = MODEL_NAME s, ollama_base_url = OLLAMA_BASE_URL s,
                      model = \<lparr>chat_model_name = MODEL_NAME s,
                               provider = \<lparr>base_url = bound\<rparr>,
                               model_id = next_id p\<rparr>\<rparr>)
           \<and> p' = p\<lparr>next_id := Suc (next_id p)\<rparr>
       | Inl e \<Rightarrow>
           (provider_bind lib (OLLAMA_BASE_URL s) (os_environ p) = Inl e
            \<or> (\<exists>bound. provider_bind lib (OLLAMA_BASE_URL s) (os_environ p) = Inr bound
                  \<and> model_fault lib (MODEL_NAME s) \<lparr>base_url = bound\<rparr> = Some e))
           \<and> p' = p"
  proof (cases r)
    case (Inl e)
    with i AgentFactory_init_Inl [of lib s p e p'] show ?thesis by simp
  next
    case (Inr f)
    with i AgentFactory_init_Inr [of lib s p f p'] show ?thesis by auto
  qed
next
  assume "provider_bind lib (OLLAMA_BASE_URL s) (os_environ p) = Inl perr"
  then show "AgentFactory_init lib s p = (Inl perr, p)"
    by (rule AgentFactory_init_provider_raises)
next
  assume "provider_bind lib (OLLAMA_BASE_URL s) (os_environ p) = Inr url"
    and "model_fault lib (MODEL_NAME s) \<lparr>base_url = url\<rparr> = Some merr"
  then show "AgentFactory_init lib s p = (Inl merr, p)"
    by (rule AgentFactory_init_model_raises)
next
  assume "agent_module_import p = (Inl err, q)"
  then show "main_startup lib p = (Inl err, q)" by (simp add: main_startup_def)
qed

text \<open>
  Claim C7 at four runs: a construction that succeeds, its handle bound to the default
  URL closed by a slash; one with an empty URL in the settings and no
  \<open>OLLAMA_BASE_URL\<close> in the environment, where the provider raises; one with an empty
  URL in the settings and \<open>OLLAMA_BASE_URL\<close> in the environment, whose handle is bound
  to the URL of the environment while the factory keeps the empty one; and a script
  started without \<open>MODEL_NAME\<close>.
\<close>

theorem AgentFactory_init_atomic_witness:
  "AgentFactory_init ollama_library llama3_settings imported_process =
     (Inr llama3_factory, imported_process\<lparr>next_id := Suc (next_id imported_process)\<rparr>)
   \<and> provider_bind ollama_library (OLLAMA_BASE_URL llama3_settings)
        (os_environ imported_process) = Inr ''http://localhost:11434/v1/''
   \<and> provider_bind ollama_library (OLLAMA_BASE_URL empty_url_settings)
        (os_environ empty_url_process) =
       Inl (UserError ''Set the OLLAMA_BASE_URL environment variable'')
   \<and> AgentFactory_init ollama_library empty_url_settings empty_url_process =
       (Inl (UserError ''Set the OLLAMA_BASE_URL environment variable''), empty_url_process)
   \<and> AgentFactory_init ollama_library empty_url_settings
        (empty_url_process\<lparr>os_environ := [(''OLLAMA_BASE_URL'', ''http://10.0.0.5:11434/v1'')]\<rparr>) =
       (Inr \<lparr>model_name = ''llama3'', ollama_base_url = [],
             model = \<lparr>chat_model_name = ''llama3'',
                      provider = \<lparr>base_url = ''http://10.0.0.5:11434/v1/''\<rparr>,
                      model_id = 1\<rparr>\<rparr>,
        empty_url_process\<lparr>os_environ := [(''OLLAMA_BASE_URL'', ''http://10.0.0.5:11434/v1'')],
                           next_id := 2\<rparr>)
   \<and> agent_module_import (fresh_process [] None) =
       (Inl (ValidationError [''MODEL_NAME'']), fresh_process [] None)
   \<and> main_startup ollama_library (fresh_process [] None) =
       (Inl (ValidationError [''MODEL_NAME'']), fresh_process [] None)"
proof -
  have ok: "AgentFactory_init ollama_library llama3_settings imported_process =
      (Inr llama3_factory, imported_process\<lparr>next_id := 2\<rparr>)"
    by (rule AgentFactory_init_sample)
  have bound: "provider_bind ollama_library (OLLAMA_BASE_URL llama3_settings)
        (os_environ imported_process) = Inr ''http://localhost:11434/v1/''"
    by (simp add: ollama_library_def llama3_settings_def ollama_bind_default)
  have raises: "provider_bind ollama_library (OLLAMA_BASE_URL empty_url_settings)
        (os_environ empty_url_process) =
       Inl (UserError ''Set the OLLAMA_BASE_URL environment variable'')"
    by (simp add: ollama_library_def ollama_bind_def empty_url_settings_def
        empty_url_process_def)
  have from_env: "AgentFactory_init ollama_library empty_url_settings
        (empty_url_process\<lparr>os_environ := [(''OLLAMA_BASE_URL'', ''http://10.0.0.5:11434/v1'')]\<rparr>) =
       (Inr \<lparr>model_name = ''llama3'', ollama_base_url = [],
             model = \<lparr>chat_model_name = ''llama3'',
                      provider = \<lparr>base_url = ''http://10.0.0.5:11434/v1/''\<rparr>,
                      model_id = 1\<rparr>\<rparr>,
        empty_url_process\<lparr>os_environ := [(''OLLAMA_BASE_URL'', ''http://10.0.0.5:11434/v1'')],
                           next_id := 2\<rparr>)"
    by (simp add: AgentFactory_init_def model_init_def OllamaProvider_init_def
        OpenAIChatModel_init_def ollama_library_def ollama_bind_def with_trailing_slash_def
        empty_url_settings_def empty_url_process_def Let_def numeral_2_eq_2)
  have unset: "agent_module_import (fresh_process [] None) =
      (Inl (ValidationError [''MODEL_NAME'']), fresh_process [] None)"
    by (simp add: agent_module_import_def get_settings_def Settings_init_def field_value_def
        fresh_process_def source_get_def parse_env_vars_def file_get_def)
  from AgentFactory_init_atomic
    [where lib = ollama_library and s = llama3_settings and p = imported_process
       and r = "Inr llama3_factory" and p' = "imported_process\<lparr>next_id := 2\<rparr>"] ok
  have "AgentFactory_init ollama_library llama3_settings imported_process =
     (Inr llama3_factory, imported_process\<lparr>next_id := Suc (next_id imported_process)\<rparr>)"
    by simp
  moreover from AgentFactory_init_atomic
    [where lib = ollama_library and s = empty_url_settings and p = empty_url_process
       and perr = "UserError ''Set the OLLAMA_BASE_URL environment variable''"] raises
  have "AgentFactory_init ollama_library empty_url_settings empty_url_process =
       (Inl (UserError ''Set the OLLAMA_BASE_URL environment variable''), empty_url_process)"
    by simp
  moreover from AgentFactory_init_atomic
    [where p = "fresh_process [] None" and err = "ValidationError [''MODEL_NAME'']"
       and q = "fresh_process [] None" and lib = ollama_library] unset
  have "main_startup ollama_library (fresh_process [] None) =
       (Inl (ValidationError [''MODEL_NAME'']), fresh_process [] None)"
    by simp
  ultimately show ?thesis using bound raises from_env unset by simp
qed

section \<open>Factories of one process\<close>

text \<open>
  Claim C10: the settings are loaded when the module is imported, before any factory
  is constructed; every factory constructed in the process afterwards has the model
  name and the base URL of those settings, whatever the environment variables and the
  \<open>.env\<close> file have become before each construction, and the constructions leave the
  memoized settings in place.
\<close>

theorem AgentFactory_inits_same_settings:
  "agent_module_import p0 = (Inr s, p1) \<Longrightarrow>
     (\<forall>r \<in> set (fst (AgentFactory_inits lib s ws p1)). \<forall>f. r = Inr f \<longrightarrow>
        model_name f = MODEL_NAME s \<and> ollama_base_url f = OLLAMA_BASE_URL s)
     \<and> lru_cache (snd (AgentFactory_inits lib s ws p1)) = Some s"
  using AgentFactory_inits_settings [of lib s ws p1] get_settings_stores [of p0 s p1]
  by (simp add: agent_module_import_def)

text \<open>
  Claim C10 at a process started with \<open>MODEL_NAME=llama3\<close>: a factory constructed
  after \<open>MODEL_NAME\<close> has become \<open>mistral\<close> and one constructed after a \<open>.env\<close> file
  with another base URL has appeared are both for \<open>llama3\<close> at the default URL.
\<close>

theorem AgentFactory_inits_same_settings_witness:
  "agent_module_import (fresh_process [(''MODEL_NAME'', ''llama3'')] None) =
     (Inr llama3_settings, imported_process)
   \<and> map (map_sum id (\<lambda>f. (model_name f, ollama_base_url f)))
        (fst (AgentFactory_inits ollama_library llama3_settings
                [([(''MODEL_NAME'', ''mistral'')], None),
                 ([], Some [(''OLLAMA_BASE_URL'', ''http://10.0.0.5:11434/v1'')])]
                imported_process)) =
       [Inr (''llama3'', ''http://localhost:11434/v1''),
        Inr (''llama3'', ''http://localhost:11434/v1'')]"
  using AgentFactory_inits_same_settings [OF agent_module_import_sample, of ollama_library
      "[([(''MODEL_NAME'', ''mistral'')], None),
        ([], Some [(''OLLAMA_BASE_URL'', ''http://10.0.0.5:11434/v1'')])]"]
    agent_module_import_sample
  by (simp add: AgentFactory_init_def model_init_def OllamaProvider_init_def
      OpenAIChatModel_init_def ollama_library_def ollama_bind_default llama3_settings_def
      Let_def)

end
